theory Spec2Isabelle
  imports Main "HOL-Library.Sublist"
begin

section \<open>Package recipes of the registry: HDF5 and NCO\<close>

text \<open>
  The two recipes (\<^verbatim>\<open>src/spack/h/hdf5/package.py\<close> and
  \<^verbatim>\<open>src/spack/n/nco/package.py\<close>) are Python classes whose methods read a
  concrete spec and call into the build engine. The methods are embedded as HOL functions
  over records that hold what the methods read. Python exceptions are values of a sum
  type, the file system and the standard output are an explicit state, and the external
  processes (compiler, linker, installed tools) are parameters that give the outcome of
  each invocation.
\<close>

subsection \<open>NCO: configure arguments\<close>

text \<open>
  \<^verbatim>\<open>variant('doc', default=False, ...)\<close>: the only variant the NCO recipe reads.
\<close>

record nco_spec =
  doc :: bool

text \<open>
  \<^verbatim>\<open>'--{0}-doc'.format(x)\<close> puts \<open>x\<close> between the two fixed parts of the
  template.
\<close>

definition format_doc :: "string \<Rightarrow> string" where
  "format_doc x = ''--'' @ x @ ''-doc''"

text \<open>
  \<^verbatim>\<open>
  def configure_args(self):
      spec = self.spec
      return ['--{0}-doc'.format('enable' if '+doc' in spec else 'disable')]
  \<close>
\<close>

definition configure_args :: "nco_spec \<Rightarrow> string list" where
  "configure_args spec = [format_doc (if doc spec then ''enable'' else ''disable'')]"

subsection \<open>Python strings\<close>

text \<open>
  \<^verbatim>\<open>str.split()\<close> with no argument splits at runs of whitespace and drops empty
  words. A character stands for a code point below 256; the whitespace among these is
  0x09 to 0x0D, 0x1C to 0x1F, the blank, 0x85 and 0xA0.
\<close>

definition is_space :: "char \<Rightarrow> bool" where
  "is_space c = (c \<in> set [CHR 0x09, CHR 0x0A, CHR 0x0B, CHR 0x0C, CHR 0x0D,
                           CHR 0x1C, CHR 0x1D, CHR 0x1E, CHR 0x1F, CHR 0x20,
                           CHR 0x85, CHR 0xA0])"

fun split_ws :: "string \<Rightarrow> string \<Rightarrow> string list" where
  "split_ws [] cur = (if cur = [] then [] else [cur])"
| "split_ws (c # cs) cur =
     (if is_space c then (if cur = [] then split_ws cs [] else cur # split_ws cs [])
      else split_ws cs (cur @ [c]))"

definition str_split :: "string \<Rightarrow> string list" where
  "str_split s = split_ws s []"

text \<open>\<^verbatim>\<open>sep.join(xs)\<close>.\<close>

fun join :: "string \<Rightarrow> string list \<Rightarrow> string" where
  "join sep [] = []"
| "join sep [x] = x"
| "join sep (x # y # ys) = x @ sep @ join sep (y # ys)"

text \<open>\<^verbatim>\<open>str(n)\<close> of a natural number: its decimal digits.\<close>

definition digits :: string where
  "digits = ''0123456789''"

function str_nat :: "nat \<Rightarrow> string" where
  "str_nat n = (if n < 10 then [digits ! n] else str_nat (n div 10) @ [digits ! (n mod 10)])"
  by pat_completeness auto
termination
  by (relation "measure id") auto

declare str_nat.simps [simp del]

subsection \<open>Versions\<close>

text \<open>
  Modelled from the spec: the version type of the build engine is not part of the
  sources. The spec's VersionSpec is a dotted version; it is modelled as the list of its
  numeric components. \<open>str\<close> of a version joins the components with dots,
  \<^verbatim>\<open>version.up_to(n)\<close> keeps the first \<open>n\<close> components, and a version satisfies
  the open range \<^verbatim>\<open>@:hi\<close> ("predates the threshold") when it is below \<open>hi\<close> in the
  component-wise order or is \<open>hi\<close> itself or one of its sub-versions.
\<close>

type_synonym version = "nat list"

definition str_version :: "version \<Rightarrow> string" where
  "str_version v = join ''.'' (map str_nat v)"

definition up_to :: "nat \<Rightarrow> version \<Rightarrow> version" where
  "up_to n v = take n v"

fun version_lt :: "version \<Rightarrow> version \<Rightarrow> bool" where
  "version_lt v [] = False"
| "version_lt [] (b # bs) = True"
| "version_lt (a # as) (b # bs) = (a < b \<or> (a = b \<and> version_lt as bs))"

definition in_range_upto :: "version \<Rightarrow> version \<Rightarrow> bool" where
  "in_range_upto hi v = (version_lt v hi \<or> prefix hi v)"

subsection \<open>HDF5: the build context\<close>

text \<open>
  What the HDF5 methods read of \<^verbatim>\<open>self.compiler\<close> and \<^verbatim>\<open>spec.compiler\<close>:
  the compiler's name, the paths of its C and Fortran front ends (\<^verbatim>\<open>fc\<close> is
  \<^verbatim>\<open>None\<close> when there is no Fortran compiler) and its position-independent-code
  flag for each language.
\<close>

record compiler_info =
  compiler_name :: string
  cc :: string
  fc :: "string option"
  cc_pic_flag :: string
  cxx_pic_flag :: string
  fc_pic_flag :: string

text \<open>
  What the HDF5 methods read of \<^verbatim>\<open>self.spec\<close>: the resolved version, the boolean
  variants \<^verbatim>\<open>shared\<close>, \<^verbatim>\<open>cxx\<close>, \<^verbatim>\<open>fortran\<close> and \<^verbatim>\<open>mpi\<close>,
  the compiler, the MPI C wrapper \<^verbatim>\<open>spec['mpi'].mpicc\<close>, and the flag strings
  \<^verbatim>\<open>spec['hdf5'].headers.cpp_flags\<close> and \<^verbatim>\<open>spec['hdf5'].libs.ld_flags\<close>
  recorded for the installed library.
\<close>

record hdf5_pkg =
  version :: version
  shared :: bool
  cxx :: bool
  fortran :: bool
  mpi :: bool
  compiler :: compiler_info
  mpicc :: string
  cpp_flags :: string
  ld_flags :: string

datatype exn = RuntimeError string | ProcessError | FileNotFoundError

subsection \<open>HDF5: flag\_handler\<close>

text \<open>\<^verbatim>\<open>xs or None\<close>: an empty list is false.\<close>

definition or_none :: "'a list \<Rightarrow> 'a list option" where
  "or_none xs = (if xs = [] then None else Some xs)"

text \<open>
  \<^verbatim>\<open>
  def flag_handler(self, name, flags):
      spec = self.spec
      cmake_flags = []
      if name == "cflags":
          if spec.compiler.name in ['gcc', 'clang', 'apple-clang']:
              cmake_flags.append("-Wno-implicit-function-declaration")
          if spec.satisfies('@:1.8.12~shared'):
              cmake_flags.append(self.compiler.cc_pic_flag)
      elif name == 'cxxflags':
          if spec.satisfies('@:1.8.12+cxx~shared'):
              cmake_flags.append(self.compiler.cxx_pic_flag)
      elif name == "fflags":
          if spec.satisfies('%cce+fortran'):
              cmake_flags.append('-ef')
          if spec.satisfies('@:1.8.12+fortran~shared'):
              cmake_flags.append(self.compiler.fc_pic_flag)
      elif name == "ldlibs":
          if '+fortran %fj' in spec:
              cmake_flags.extend(['-lfj90i', '-lfj90f', '-lfjsrcinfo', '-lelf'])
      return flags, None, (cmake_flags or None)
  \<close>
  The result is the triple of the flags for the compiler wrapper (the input list), the
  flags for the environment (none) and the flags for the build system.
\<close>

definition flag_handler ::
  "hdf5_pkg \<Rightarrow> string \<Rightarrow> string list \<Rightarrow> string list \<times> string list option \<times> string list option" where
  "flag_handler pkg name flags =
    (let cmake_flags =
      (if name = ''cflags'' then
         (if compiler_name (compiler pkg) \<in> set [''gcc'', ''clang'', ''apple-clang'']
          then [''-Wno-implicit-function-declaration''] else [])
         @ (if in_range_upto [1, 8, 12] (version pkg) \<and> \<not> shared pkg
            then [cc_pic_flag (compiler pkg)] else [])
       else if name = ''cxxflags'' then
         (if in_range_upto [1, 8, 12] (version pkg) \<and> cxx pkg \<and> \<not> shared pkg
          then [cxx_pic_flag (compiler pkg)] else [])
       else if name = ''fflags'' then
         (if compiler_name (compiler pkg) = ''cce'' \<and> fortran pkg then [''-ef''] else [])
         @ (if in_range_upto [1, 8, 12] (version pkg) \<and> fortran pkg \<and> \<not> shared pkg
            then [fc_pic_flag (compiler pkg)] else [])
       else if name = ''ldlibs'' then
         (if fortran pkg \<and> compiler_name (compiler pkg) = ''fj''
          then [''-lfj90i'', ''-lfj90f'', ''-lfjsrcinfo'', ''-lelf''] else [])
       else [])
     in (flags, None, or_none cmake_flags))"

subsection \<open>HDF5: flag\_handler on a store of list objects\<close>

text \<open>
  Python lists are mutable objects. To state that \<^verbatim>\<open>flag_handler\<close> leaves its
  argument list alone, the same method is embedded a second time over a store: a list is
  a reference into the store, \<^verbatim>\<open>[]\<close> allocates a fresh list, and
  \<^verbatim>\<open>append\<close> and \<^verbatim>\<open>extend\<close> update the list in place.
\<close>

record heap =
  cells :: "nat \<rightharpoonup> string list"
  next_ref :: nat

definition new_list :: "heap \<Rightarrow> nat \<times> heap" where
  "new_list h = (next_ref h, h\<lparr>cells := (cells h)(next_ref h \<mapsto> []), next_ref := Suc (next_ref h)\<rparr>)"

definition list_extend :: "nat \<Rightarrow> string list \<Rightarrow> heap \<Rightarrow> heap" where
  "list_extend r xs h =
     (case cells h r of None \<Rightarrow> h | Some ys \<Rightarrow> h\<lparr>cells := (cells h)(r \<mapsto> ys @ xs)\<rparr>)"

definition list_append :: "nat \<Rightarrow> string \<Rightarrow> heap \<Rightarrow> heap" where
  "list_append r x h = list_extend r [x] h"

text \<open>\<^verbatim>\<open>r or None\<close> for a list reference \<open>r\<close>.\<close>

definition ref_or_none :: "nat \<Rightarrow> heap \<Rightarrow> nat option" where
  "ref_or_none r h = (if cells h r = Some [] then None else Some r)"

definition flag_handler_st ::
  "hdf5_pkg \<Rightarrow> string \<Rightarrow> nat \<Rightarrow> heap \<Rightarrow> (nat \<times> nat option \<times> nat option) \<times> heap" where
  "flag_handler_st pkg name flags h0 =
    (let (cmake_flags, h1) = new_list h0;
         h2 =
      (if name = ''cflags'' then
         (let h = (if compiler_name (compiler pkg) \<in> set [''gcc'', ''clang'', ''apple-clang'']
                   then list_append cmake_flags ''-Wno-implicit-function-declaration'' h1
                   else h1)
          in if in_range_upto [1, 8, 12] (version pkg) \<and> \<not> shared pkg
             then list_append cmake_flags (cc_pic_flag (compiler pkg)) h else h)
       else if name = ''cxxflags'' then
         (if in_range_upto [1, 8, 12] (version pkg) \<and> cxx pkg \<and> \<not> shared pkg
          then list_append cmake_flags (cxx_pic_flag (compiler pkg)) h1 else h1)
       else if name = ''fflags'' then
         (let h = (if compiler_name (compiler pkg) = ''cce'' \<and> fortran pkg
                   then list_append cmake_flags ''-ef'' h1 else h1)
          in if in_range_upto [1, 8, 12] (version pkg) \<and> fortran pkg \<and> \<not> shared pkg
             then list_append cmake_flags (fc_pic_flag (compiler pkg)) h else h)
       else if name = ''ldlibs'' then
         (if fortran pkg \<and> compiler_name (compiler pkg) = ''fj''
          then list_extend cmake_flags [''-lfj90i'', ''-lfj90f'', ''-lfjsrcinfo'', ''-lelf''] h1
          else h1)
       else h1)
     in ((flags, None, ref_or_none cmake_flags h2), h2))"

text \<open>Reading an optional list reference in a store.\<close>

definition deref :: "heap \<Rightarrow> nat option \<Rightarrow> string list option" where
  "deref h r = (case r of None \<Rightarrow> None | Some a \<Rightarrow> cells h a)"

subsection \<open>HDF5: fortran\_check\<close>

text \<open>\<^verbatim>\<open>not x\<close> for an optional string: \<^verbatim>\<open>None\<close> and the empty string are false.\<close>

definition truthy :: "string option \<Rightarrow> bool" where
  "truthy x = (case x of None \<Rightarrow> False | Some s \<Rightarrow> s \<noteq> [])"

text \<open>
  \<^verbatim>\<open>
  @run_before('cmake')
  def fortran_check(self):
      if '+fortran' in self.spec and not self.compiler.fc:
          msg = 'cannot build a Fortran variant without a Fortran compiler'
          raise RuntimeError(msg)
  \<close>
\<close>

definition fortran_check :: "hdf5_pkg \<Rightarrow> exn + unit" where
  "fortran_check pkg =
     (if fortran pkg \<and> \<not> truthy (fc (compiler pkg))
      then Inl (RuntimeError ''cannot build a Fortran variant without a Fortran compiler'')
      else Inr ())"

text \<open>
  Modelled from the spec: the decorator \<^verbatim>\<open>run_before\<close> belongs to the build engine,
  which is not part of the sources. A missing-prerequisite error is "raised before the
  build step that needs it": the engine calls the hook first and runs the phase only when
  the hook returns.
\<close>

definition run_phase_cmake :: "hdf5_pkg \<Rightarrow> (hdf5_pkg \<Rightarrow> 'a) \<Rightarrow> exn + 'a" where
  "run_phase_cmake pkg cmake =
     (case fortran_check pkg of Inl e \<Rightarrow> Inl e | Inr u \<Rightarrow> Inr (cmake pkg))"

subsection \<open>The file system, the standard output and external processes\<close>

text \<open>
  A path is the list of its components. The state of the world holds the current working
  directory, the directories that exist, the contents of the files written, and the
  lines printed so far (one entry for each call of \<^verbatim>\<open>print\<close>).
\<close>

type_synonym path = "string list"

record world =
  cwd :: path
  is_dir :: "path \<Rightarrow> bool"
  files :: "path \<rightharpoonup> string"
  stdout :: "string list"

definition print_line :: "string \<Rightarrow> world \<Rightarrow> world" where
  "print_line s w = w\<lparr>stdout := stdout w @ [s]\<rparr>"

text \<open>\<^verbatim>\<open>with open(name, 'w') as f: f.write(text)\<close>, for a name relative to the
  working directory.\<close>

definition write_file :: "string \<Rightarrow> string \<Rightarrow> world \<Rightarrow> world" where
  "write_file name text w = w\<lparr>files := (files w)(cwd w @ [name] \<mapsto> text)\<rparr>"

text \<open>
  Modelled from the spec: \<^verbatim>\<open>working_dir\<close> is a helper of the build engine and not
  part of the sources. The spec describes a working directory that is created on entry;
  the helper creates the directory (with its ancestors) when \<^verbatim>\<open>create=True\<close>,
  changes into it, and changes back to the previous directory when the block is left,
  normally or by an exception. It does not remove the directory: the source removes it
  itself, by \<^verbatim>\<open>shutil.rmtree\<close> after the block.
\<close>

definition mkdirp :: "path \<Rightarrow> world \<Rightarrow> world" where
  "mkdirp d w = w\<lparr>is_dir := (\<lambda>p. is_dir w p \<or> prefix p d)\<rparr>"

definition enter_working_dir :: "string \<Rightarrow> world \<Rightarrow> world" where
  "enter_working_dir name w = (mkdirp (cwd w @ [name]) w)\<lparr>cwd := cwd w @ [name]\<rparr>"

definition leave_working_dir :: "path \<Rightarrow> world \<Rightarrow> world" where
  "leave_working_dir orig w = w\<lparr>cwd := orig\<rparr>"

text \<open>
  \<^verbatim>\<open>shutil.rmtree(name)\<close> removes the directory and everything below it, and raises
  when the directory does not exist.
\<close>

definition rmtree :: "string \<Rightarrow> world \<Rightarrow> (exn + unit) \<times> world" where
  "rmtree name w =
     (let d = cwd w @ [name]
      in if is_dir w d
         then (Inr (), w\<lparr>is_dir := (\<lambda>p. is_dir w p \<and> \<not> prefix d p),
                          files := (\<lambda>p. if prefix d p then None else files w p)\<rparr>)
         else (Inl FileNotFoundError, w))"

text \<open>
  Calling an \<^verbatim>\<open>Executable\<close> runs an external process: it returns the captured
  standard output, or raises \<^verbatim>\<open>ProcessError\<close> when the program cannot be started
  or exits with a non-zero status. What each invocation does is a parameter: a function
  from the working directory, the program and its arguments to the outcome.
\<close>

datatype proc_outcome = Returned string | Raised_ProcessError

type_synonym executor = "path \<Rightarrow> string \<Rightarrow> string list \<Rightarrow> proc_outcome"

subsection \<open>HDF5: the install check\<close>

text \<open>The probe program, the raw string \<^verbatim>\<open>source\<close> of \<^verbatim>\<open>_check_install\<close>.\<close>

definition source :: string where
  "source = concat
    [''\<newline>'',
     ''#include <hdf5.h>\<newline>'',
     ''#include <assert.h>\<newline>'',
     ''#include <stdio.h>\<newline>'',
     ''int main(int argc, char **argv) {\<newline>'',
     ''  unsigned majnum, minnum, relnum;\<newline>'',
     ''  herr_t herr = H5get_libversion(&majnum, &minnum, &relnum);\<newline>'',
     ''  assert(!herr);\<newline>'',
     ''  printf('', [CHR 0x22], ''HDF5 version %d.%d.%d %u.%u.%u'', [CHR 0x5C], ''n'', [CHR 0x22],
       '', H5_VERS_MAJOR, H5_VERS_MINOR,\<newline>'',
     ''         H5_VERS_RELEASE, majnum, minnum, relnum);\<newline>'',
     ''  return 0;\<newline>'',
     ''}\<newline>'']"

text \<open>
  What the probe prints when it runs to its end: the \<^verbatim>\<open>printf\<close> of
  \<^verbatim>\<open>source\<close>, with the three version numbers of the header
  (\<^verbatim>\<open>H5_VERS_MAJOR\<close>, \<^verbatim>\<open>H5_VERS_MINOR\<close>, \<^verbatim>\<open>H5_VERS_RELEASE\<close>) and the
  three of the library (\<^verbatim>\<open>majnum\<close>, \<^verbatim>\<open>minnum\<close>, \<^verbatim>\<open>relnum\<close>) in the
  format \<^verbatim>\<open>HDF5 version %d.%d.%d %u.%u.%u\<close> with a line break.
\<close>

definition probe_printf :: "nat \<Rightarrow> nat \<Rightarrow> nat \<Rightarrow> nat \<Rightarrow> nat \<Rightarrow> nat \<Rightarrow> string" where
  "probe_printf a b c a' b' c' =
     ''HDF5 version '' @ str_nat a @ ''.'' @ str_nat b @ ''.'' @ str_nat c
       @ '' '' @ str_nat a' @ ''.'' @ str_nat b' @ ''.'' @ str_nat c' @ ''\<newline>''"

text \<open>
  \<^verbatim>\<open>
  expected = """\
  HDF5 version {version} {version}
  """.format(version=str(spec.version.up_to(3)))
  \<close>
  The backslash after the opening quotes removes the first line break; the one before
  the closing quotes is part of the string.
\<close>

definition expected_output :: "version \<Rightarrow> string" where
  "expected_output v =
     ''HDF5 version '' @ str_version (up_to 3 v) @ '' '' @ str_version (up_to 3 v) @ ''\<newline>''"

text \<open>The lines printed when the produced output differs from the expected one.\<close>

definition mismatch_report :: "string \<Rightarrow> string \<Rightarrow> string list" where
  "mismatch_report expected output =
     [''Produced output does not match expected output.'',
      ''Expected output:'',
      replicate 80 CHR ''-'',
      expected,
      replicate 80 CHR ''-'',
      ''Produced output:'',
      replicate 80 CHR ''-'',
      output,
      replicate 80 CHR ''-'']"

text \<open>
  The body of the \<^verbatim>\<open>with working_dir(checkdir, create=True)\<close> block:
  \<^verbatim>\<open>
  with open("check.c", 'w') as f:
      f.write(source)
  if '+mpi' in spec:
      cc = Executable(spec['mpi'].mpicc)
  else:
      cc = Executable(self.compiler.cc)
  cc(*(['-c', "check.c"] + spec['hdf5'].headers.cpp_flags.split()))
  cc(*(['-o', "check", "check.o"] + spec['hdf5'].libs.ld_flags.split()))
  try:
      check = Executable('./check')
      output = check(output=str)
  except ProcessError:
      output = ""
  success = output == expected
  if not success:
      print(...)
      raise RuntimeError("HDF5 install check failed")
  \<close>
\<close>

definition compiler_exe :: "hdf5_pkg \<Rightarrow> string" where
  "compiler_exe pkg = (if mpi pkg then mpicc pkg else cc (compiler pkg))"

definition compile_args :: "hdf5_pkg \<Rightarrow> string list" where
  "compile_args pkg = [''-c'', ''check.c''] @ str_split (cpp_flags pkg)"

definition link_args :: "hdf5_pkg \<Rightarrow> string list" where
  "link_args pkg = [''-o'', ''check'', ''check.o''] @ str_split (ld_flags pkg)"

text \<open>The \<^verbatim>\<open>try\<close> statement: the output of the probe run in directory \<open>d\<close>, or
  the empty string when the run raises \<^verbatim>\<open>ProcessError\<close>.\<close>

definition probe_output :: "executor \<Rightarrow> path \<Rightarrow> string" where
  "probe_output ex d =
     (case ex d ''./check'' [] of Returned s \<Rightarrow> s | Raised_ProcessError \<Rightarrow> [])"

definition check_body :: "hdf5_pkg \<Rightarrow> executor \<Rightarrow> world \<Rightarrow> (exn + unit) \<times> world" where
  "check_body pkg ex w0 =
    (let expected = expected_output (version pkg);
         w = write_file ''check.c'' source w0
     in case ex (cwd w) (compiler_exe pkg) (compile_args pkg) of
          Raised_ProcessError \<Rightarrow> (Inl ProcessError, w)
        | Returned u \<Rightarrow>
         (case ex (cwd w) (compiler_exe pkg) (link_args pkg) of
            Raised_ProcessError \<Rightarrow> (Inl ProcessError, w)
          | Returned u' \<Rightarrow>
             (let output = probe_output ex (cwd w);
                  success = (output = expected)
              in if \<not> success
                 then (Inl (RuntimeError ''HDF5 install check failed''),
                       foldl (\<lambda>s l. print_line l s) w (mismatch_report expected output))
                 else (Inr (), w))))"

text \<open>
  The method \<^verbatim>\<open>_check_install\<close> (an Isabelle name cannot start with an underscore):
  \<^verbatim>\<open>
  def _check_install(self):
      spec = self.spec
      print("Checking HDF5 installation...")
      checkdir = "spack-check"
      with working_dir(checkdir, create=True):
          ...
      shutil.rmtree(checkdir)
  \<close>
  An exception raised in the block leaves the method after the working directory has
  been restored; \<^verbatim>\<open>shutil.rmtree\<close> is reached only when the block ends normally.
\<close>

definition checkdir :: string where
  "checkdir = ''spack-check''"

definition priv_check_install :: "hdf5_pkg \<Rightarrow> executor \<Rightarrow> world \<Rightarrow> (exn + unit) \<times> world" where
  "priv_check_install pkg ex w0 =
    (let w1 = print_line ''Checking HDF5 installation...'' w0;
         orig = cwd w1;
         (r, w2) = check_body pkg ex (enter_working_dir checkdir w1);
         w3 = leave_working_dir orig w2
     in case r of Inl e \<Rightarrow> (Inl e, w3) | Inr u \<Rightarrow> rmtree checkdir w3)"



subsection \<open>HDF5: the smoke tests\<close>

text \<open>
  Modelled from the spec: \<^verbatim>\<open>run_test\<close> is a method of the engine's package base
  class and not part of the sources. By the spec, a check invokes one installed
  executable with fixed arguments and compares its output with what is expected; a check
  whose executable is absent is skipped when it was called with
  \<^verbatim>\<open>skip_missing=True\<close>; a failing check does not raise, its outcome is recorded and
  reported by the test harness. Which executables are installed and whether a run meets
  the expectation are parameters.
\<close>

datatype outcome = Skipped | Passed | Failed

record check_run =
  run_exe :: string
  run_options :: "string list"
  run_expected :: "string list"
  run_purpose :: string
  run_outcome :: outcome

record test_env =
  which :: "string \<Rightarrow> bool"
  meets_expectation :: "string \<Rightarrow> string list \<Rightarrow> string list \<Rightarrow> bool"
  test_data_dir :: string
  dump_out :: "string list"

definition run_test ::
  "test_env \<Rightarrow> string \<Rightarrow> string list \<Rightarrow> string list \<Rightarrow> string \<Rightarrow> bool \<Rightarrow> check_run list
   \<Rightarrow> check_run list" where
  "run_test env exe options expected purpose skip_missing log =
     log @ [\<lparr>run_exe = exe, run_options = options, run_expected = expected,
             run_purpose = purpose,
             run_outcome =
               (if which env exe
                then (if meets_expectation env exe options expected then Passed else Failed)
                else (if skip_missing then Skipped else Failed))\<rparr>]"

text \<open>
  \<^verbatim>\<open>
  def _test_check_versions(self):
      spec_vers_str = 'Version {0}'.format(self.spec.version)
      exes = ['h5copy', 'h5diff', 'h5dump', 'h5format_convert', 'h5ls',
              'h5mkgrp', 'h5repack', 'h5stat', 'h5unjam']
      use_short_opt = ['h52gif', 'h5repart', 'h5unjam']
      for exe in exes:
          reason = 'test: ensuring version of {0} is {1}'.format(exe, spec_vers_str)
          option = '-V' if exe in use_short_opt else '--version'
          self.run_test(exe, option, spec_vers_str, installed=True,
                        purpose=reason, skip_missing=True)
  \<close>
  A single string given for the options or for the expected output stands for the list
  of that one string.
\<close>

definition exes :: "string list" where
  "exes = [''h5copy'', ''h5diff'', ''h5dump'', ''h5format_convert'', ''h5ls'',
           ''h5mkgrp'', ''h5repack'', ''h5stat'', ''h5unjam'']"

definition use_short_opt :: "string list" where
  "use_short_opt = [''h52gif'', ''h5repart'', ''h5unjam'']"

fun check_versions_loop ::
  "test_env \<Rightarrow> string \<Rightarrow> string list \<Rightarrow> check_run list \<Rightarrow> check_run list" where
  "check_versions_loop env spec_vers_str [] log = log"
| "check_versions_loop env spec_vers_str (exe # rest) log =
     (let reason = ''test: ensuring version of '' @ exe @ '' is '' @ spec_vers_str;
          option = (if exe \<in> set use_short_opt then ''-V'' else ''--version'')
      in check_versions_loop env spec_vers_str rest
           (run_test env exe [option] [spec_vers_str] reason True log))"

definition priv_test_check_versions ::
  "hdf5_pkg \<Rightarrow> test_env \<Rightarrow> check_run list \<Rightarrow> check_run list" where
  "priv_test_check_versions pkg env log =
     check_versions_loop env (''Version '' @ str_version (version pkg)) exes log"

text \<open>
  \<^verbatim>\<open>
  def _test_example(self):
      test_data_dir = self.test_suite.current_test_data_dir
      filename = 'spack.h5'
      h5_file = test_data_dir.join(filename)
      reason = 'test: ensuring h5dump produces expected output'
      expected = get_escaped_text_output(test_data_dir.join('dump.out'))
      self.run_test('h5dump', filename, expected, installed=True,
                    purpose=reason, skip_missing=True, work_dir=test_data_dir)
      reason = 'test: ensuring h5copy runs'
      options = ['-i', h5_file, '-s', 'Spack', '-o', 'test.h5', '-d', 'Spack']
      self.run_test('h5copy', options, [], installed=True,
                    purpose=reason, skip_missing=True, work_dir='.')
      reason = ('test: ensuring h5diff shows no differences between orig and copy')
      self.run_test('h5diff', [h5_file, 'test.h5'], [], installed=True,
                    purpose=reason, skip_missing=True, work_dir='.')
  \<close>
  The directory of the test data and the escaped lines of \<^verbatim>\<open>dump.out\<close> come from
  the test environment.
\<close>

definition priv_test_example :: "test_env \<Rightarrow> check_run list \<Rightarrow> check_run list" where
  "priv_test_example env log =
    (let filename = ''spack.h5'';
         h5_file = test_data_dir env @ ''/'' @ filename;
         log1 = run_test env ''h5dump'' [filename] (dump_out env)
                  ''test: ensuring h5dump produces expected output'' True log;
         log2 = run_test env ''h5copy''
                  [''-i'', h5_file, ''-s'', ''Spack'', ''-o'', ''test.h5'', ''-d'', ''Spack''] []
                  ''test: ensuring h5copy runs'' True log1
     in run_test env ''h5diff'' [h5_file, ''test.h5''] []
          ''test: ensuring h5diff shows no differences between orig and copy'' True log2)"

text \<open>
  \<^verbatim>\<open>
  def test(self):
      self._test_check_versions()
      self._test_example()
      self._check_install()
  \<close>
  The state of the test run is the list of the checks made so far and the world.
\<close>

definition test ::
  "hdf5_pkg \<Rightarrow> test_env \<Rightarrow> executor \<Rightarrow> check_run list \<times> world
   \<Rightarrow> (exn + unit) \<times> check_run list \<times> world" where
  "test pkg env ex st =
    (let log1 = priv_test_check_versions pkg env (fst st);
         log2 = priv_test_example env log1;
         (r, w) = priv_check_install pkg ex (snd st)
     in (r, log2, w))"

subsection \<open>Example build contexts\<close>

text \<open>
  The scenario of the spec: HDF5 1.10.7 with shared libraries and without MPI, built
  with gcc; and a static build of 1.8.12 with the C++ and Fortran interfaces.
\<close>

definition gcc :: compiler_info where
  "gcc = \<lparr>compiler_name = ''gcc'', cc = ''/usr/bin/gcc'', fc = Some ''/usr/bin/gfortran'',
          cc_pic_flag = ''-fPIC'', cxx_pic_flag = ''-fPIC'', fc_pic_flag = ''-fPIC''\<rparr>"

definition hdf5_1_10_7 :: hdf5_pkg where
  "hdf5_1_10_7 = \<lparr>version = [1, 10, 7], shared = True, cxx = False, fortran = False,
                  mpi = False, compiler = gcc, mpicc = ''mpicc'',
                  cpp_flags = ''-I/opt/hdf5/include'',
                  ld_flags = ''-L/opt/hdf5/lib -lhdf5''\<rparr>"

definition hdf5_1_8_12_static :: hdf5_pkg where
  "hdf5_1_8_12_static = \<lparr>version = [1, 8, 12], shared = False, cxx = True, fortran = True,
                  mpi = False, compiler = gcc, mpicc = ''mpicc'',
                  cpp_flags = ''-I/opt/hdf5/include'',
                  ld_flags = ''-L/opt/hdf5/lib -lhdf5''\<rparr>"

text \<open>
  The same build for the version \<^verbatim>\<open>1.10\<close>, one of the four versions the recipe
  declares (\<^verbatim>\<open>1.13\<close>, \<^verbatim>\<open>1.12\<close>, \<^verbatim>\<open>1.10\<close>, \<^verbatim>\<open>1.8\<close>).
\<close>

definition hdf5_1_10 :: hdf5_pkg where
  "hdf5_1_10 = hdf5_1_10_7\<lparr>version := [1, 10]\<rparr>"

text \<open>A store that holds one list, the input flags.\<close>

definition heap0 :: heap where
  "heap0 = \<lparr>cells = [0 \<mapsto> [''-O2'']], next_ref = 1\<rparr>"

text \<open>A stage directory in which nothing has been created or printed yet.\<close>

definition fresh_stage :: world where
  "fresh_stage = \<lparr>cwd = [''stage''], is_dir = (\<lambda>p. prefix p [''stage'']),
                  files = Map.empty, stdout = []\<rparr>"

text \<open>
  External processes: one where compiler and linker succeed and the probe prints a given
  string, one where the probe cannot be run, and one where every invocation fails.
\<close>

definition probe_prints :: "string \<Rightarrow> executor" where
  "probe_prints s = (\<lambda>d exe args. if exe = ''./check'' then Returned s else Returned [])"

definition probe_fails :: executor where
  "probe_fails = (\<lambda>d exe args. if exe = ''./check'' then Raised_ProcessError else Returned [])"

definition all_fail :: executor where
  "all_fail = (\<lambda>d exe args. Raised_ProcessError)"

text \<open>A partial installation: only \<^verbatim>\<open>h5dump\<close> and \<^verbatim>\<open>h5ls\<close> are installed, and
  no run meets its expectation.\<close>

definition partial_install :: test_env where
  "partial_install = \<lparr>which = (\<lambda>exe. exe \<in> set [''h5dump'', ''h5ls'']),
                      meets_expectation = (\<lambda>exe options expected. False),
                      test_data_dir = ''data'', dump_out = []\<rparr>"

section \<open>Properties\<close>

subsection \<open>The install check\<close>

lemma write_file_simps:
  "cwd (write_file n t w) = cwd w" "is_dir (write_file n t w) = is_dir w"
  "stdout (write_file n t w) = stdout w"
  by (simp_all add: write_file_def)

lemma print_lines_simps:
  "cwd (foldl (\<lambda>s l. print_line l s) w ls) = cwd w"
  "is_dir (foldl (\<lambda>s l. print_line l s) w ls) = is_dir w"
  "stdout (foldl (\<lambda>s l. print_line l s) w ls) = stdout w @ ls"
  by (induction ls arbitrary: w) (simp_all add: print_line_def)

lemma check_body_result:
  "fst (check_body pkg ex w) =
     (case ex (cwd w) (compiler_exe pkg) (compile_args pkg) of
        Raised_ProcessError \<Rightarrow> Inl ProcessError
      | Returned u \<Rightarrow>
         (case ex (cwd w) (compiler_exe pkg) (link_args pkg) of
            Raised_ProcessError \<Rightarrow> Inl ProcessError
          | Returned u' \<Rightarrow>
              if probe_output ex (cwd w) = expected_output (version pkg) then Inr ()
              else Inl (RuntimeError ''HDF5 install check failed'')))"
  by (simp add: check_body_def Let_def write_file_simps split: proc_outcome.splits)

lemma check_body_world:
  "cwd (snd (check_body pkg ex w)) = cwd w"
  "is_dir (snd (check_body pkg ex w)) = is_dir w"
  by (simp_all add: check_body_def Let_def write_file_simps print_lines_simps
      split: proc_outcome.splits)


lemma entered_simps:
  "cwd (enter_working_dir n (print_line s w)) = cwd w @ [n]"
  "is_dir (enter_working_dir n (print_line s w)) (cwd w @ [n])"
  "stdout (enter_working_dir n (print_line s w)) = stdout w @ [s]"
  by (simp_all add: enter_working_dir_def mkdirp_def print_line_def)

lemma rmtree_simps:
  "is_dir w (cwd w @ [n]) \<Longrightarrow> fst (rmtree n w) = Inr ()"
  "is_dir w (cwd w @ [n]) \<Longrightarrow> \<not> is_dir (snd (rmtree n w)) (cwd w @ [n])"
  "cwd (snd (rmtree n w)) = cwd w"
  "stdout (snd (rmtree n w)) = stdout w"
  by (simp_all add: rmtree_def Let_def)

lemma leave_simps:
  "cwd (leave_working_dir orig w) = orig"
  "is_dir (leave_working_dir orig w) = is_dir w"
  "stdout (leave_working_dir orig w) = stdout w"
  by (simp_all add: leave_working_dir_def)

lemma priv_check_install_unfold:
  "priv_check_install pkg ex w =
     (let b = check_body pkg ex
                (enter_working_dir checkdir (print_line ''Checking HDF5 installation...'' w));
          w3 = leave_working_dir (cwd w) (snd b)
      in case fst b of Inl e \<Rightarrow> (Inl e, w3) | Inr u \<Rightarrow> rmtree checkdir w3)"
  by (simp add: priv_check_install_def Let_def split_def print_line_def split: sum.split)

lemma priv_check_install_fst:
  "fst (priv_check_install pkg ex w) =
     fst (check_body pkg ex
           (enter_working_dir checkdir (print_line ''Checking HDF5 installation...'' w)))"
proof (cases "fst (check_body pkg ex
           (enter_working_dir checkdir (print_line ''Checking HDF5 installation...'' w)))")
  case (Inl e)
  then show ?thesis by (simp add: priv_check_install_unfold Let_def)
next
  case (Inr u)
  have "fst (rmtree checkdir (leave_working_dir (cwd w) (snd (check_body pkg ex
       (enter_working_dir checkdir (print_line ''Checking HDF5 installation...'' w)))))) = Inr ()"
    by (rule rmtree_simps(1)) (simp add: leave_simps check_body_world entered_simps)
  with Inr show ?thesis by (simp add: priv_check_install_unfold Let_def)
qed

lemma priv_check_install_cwd: "cwd (snd (priv_check_install pkg ex w)) = cwd w"
  by (simp add: priv_check_install_unfold Let_def rmtree_simps leave_simps split: sum.splits)


lemma priv_check_install_dir:
  "is_dir (snd (priv_check_install pkg ex w)) (cwd w @ [checkdir])
     = (fst (priv_check_install pkg ex w) \<noteq> Inr ())"
proof (cases "fst (check_body pkg ex
           (enter_working_dir checkdir (print_line ''Checking HDF5 installation...'' w)))")
  case (Inl e)
  then show ?thesis
    by (simp add: priv_check_install_unfold Let_def leave_simps check_body_world entered_simps)
next
  case (Inr u)
  let ?w3 = "leave_working_dir (cwd w) (snd (check_body pkg ex
       (enter_working_dir checkdir (print_line ''Checking HDF5 installation...'' w))))"
  have d: "is_dir ?w3 (cwd ?w3 @ [checkdir])"
    by (simp add: leave_simps check_body_world entered_simps)
  have "\<not> is_dir (snd (rmtree checkdir ?w3)) (cwd ?w3 @ [checkdir])"
    using d by (rule rmtree_simps(2))
  moreover have "fst (rmtree checkdir ?w3) = Inr ()"
    using d by (rule rmtree_simps(1))
  ultimately show ?thesis using Inr
    by (simp add: priv_check_install_unfold Let_def leave_simps)
qed

lemma expected_output_nonempty: "expected_output v \<noteq> []"
  by (simp add: expected_output_def)

lemmas run_defs = priv_check_install_def check_body_def Let_def print_line_def
  enter_working_dir_def mkdirp_def leave_working_dir_def write_file_def checkdir_def
  compiler_exe_def probe_output_def expected_output_def mismatch_report_def rmtree_def
  str_version_def up_to_def str_nat.simps digits_def

lemma check_passes_1_10_7:
  "fst (priv_check_install hdf5_1_10_7
          (probe_prints ''HDF5 version 1.10.7 1.10.7\<newline>'') fresh_stage) = Inr ()"
  by (simp add: run_defs hdf5_1_10_7_def probe_prints_def fresh_stage_def gcc_def)

text \<open>
  C1. The claim: the install check removes its working directory \<open>spack-check\<close> on
  every exit path. It fails on the code: when the compiler fails, and when the probe
  cannot be run and the comparison raises, the directory is still there afterwards.
\<close>

theorem check_install_cleanup_counterexample:
  "fst (priv_check_install hdf5_1_10_7 all_fail fresh_stage) = Inl ProcessError
   \<and> is_dir (snd (priv_check_install hdf5_1_10_7 all_fail fresh_stage)) [''stage'', ''spack-check'']
   \<and> fst (priv_check_install hdf5_1_10_7 probe_fails fresh_stage)
       = Inl (RuntimeError ''HDF5 install check failed'')
   \<and> is_dir (snd (priv_check_install hdf5_1_10_7 probe_fails fresh_stage)) [''stage'', ''spack-check'']"
  by (simp add: priv_check_install_def check_body_def Let_def hdf5_1_10_7_def all_fail_def
      probe_fails_def fresh_stage_def print_line_def enter_working_dir_def mkdirp_def
      leave_working_dir_def write_file_def checkdir_def compiler_exe_def probe_output_def
      expected_output_def mismatch_report_def gcc_def)

text \<open>
  C1, as the code has it: after the install check the directory \<open>spack-check\<close> of the
  starting directory exists exactly when the check raised; it is removed when the check
  succeeds, and only then. The check succeeds exactly when compiling and linking
  succeed and the output of the probe is the expected string. The working directory is
  restored on every path.
\<close>

theorem check_install_cleanup:
  "is_dir (snd (priv_check_install pkg ex w)) (cwd w @ [checkdir])
     = (fst (priv_check_install pkg ex w) \<noteq> Inr ())
   \<and> (fst (priv_check_install pkg ex w) = Inr ())
     = (ex (cwd w @ [checkdir]) (compiler_exe pkg) (compile_args pkg) \<noteq> Raised_ProcessError
        \<and> ex (cwd w @ [checkdir]) (compiler_exe pkg) (link_args pkg) \<noteq> Raised_ProcessError
        \<and> probe_output ex (cwd w @ [checkdir]) = expected_output (version pkg))
   \<and> cwd (snd (priv_check_install pkg ex w)) = cwd w"
proof -
  have "(fst (priv_check_install pkg ex w) = Inr ())
     = (ex (cwd w @ [checkdir]) (compiler_exe pkg) (compile_args pkg) \<noteq> Raised_ProcessError
        \<and> ex (cwd w @ [checkdir]) (compiler_exe pkg) (link_args pkg) \<noteq> Raised_ProcessError
        \<and> probe_output ex (cwd w @ [checkdir]) = expected_output (version pkg))"
    by (simp add: priv_check_install_fst check_body_result entered_simps
        split: proc_outcome.splits)
  then show ?thesis
    using priv_check_install_dir [of pkg ex w] priv_check_install_cwd [of pkg ex w]
    by blast
qed

theorem check_install_cleanup_witness:
  "\<not> is_dir (snd (priv_check_install hdf5_1_10_7
          (probe_prints ''HDF5 version 1.10.7 1.10.7\<newline>'') fresh_stage))
        [''stage'', ''spack-check'']
   \<and> is_dir (snd (priv_check_install hdf5_1_10_7 all_fail fresh_stage))
        [''stage'', ''spack-check'']"
proof -
  note a = check_passes_1_10_7
  have b: "fst (priv_check_install hdf5_1_10_7 all_fail fresh_stage) = Inl ProcessError"
    by (simp add: run_defs hdf5_1_10_7_def all_fail_def fresh_stage_def gcc_def)
  have c: "cwd fresh_stage @ [checkdir] = [''stage'', ''spack-check'']"
    by (simp add: fresh_stage_def checkdir_def)
  show ?thesis
    using check_install_cleanup [of hdf5_1_10_7
            "probe_prints ''HDF5 version 1.10.7 1.10.7\<newline>''" fresh_stage]
          check_install_cleanup [of hdf5_1_10_7 all_fail fresh_stage]
    by (simp add: a b c)
qed




text \<open>
  C3. When the compiled probe cannot be run, its output is taken to be the empty string:
  the install check behaves exactly as if the probe had run and printed nothing, the
  \<open>ProcessError\<close> of the run is not what the caller sees, and the check fails in the
  comparison, with the error of the comparison.
\<close>

theorem probe_failure_is_empty_output:
  assumes "ex (cwd w @ [checkdir]) (compiler_exe pkg) (compile_args pkg) \<noteq> Raised_ProcessError"
    and "ex (cwd w @ [checkdir]) (compiler_exe pkg) (link_args pkg) \<noteq> Raised_ProcessError"
    and "ex (cwd w @ [checkdir]) ''./check'' [] = Raised_ProcessError"
  shows "probe_output ex (cwd w @ [checkdir]) = []
         \<and> priv_check_install pkg ex w =
             priv_check_install pkg
               (\<lambda>d exe args. if exe = ''./check'' \<and> args = [] then Returned [] else ex d exe args) w
         \<and> fst (priv_check_install pkg ex w) = Inl (RuntimeError ''HDF5 install check failed'')
         \<and> fst (priv_check_install pkg ex w) \<noteq> Inl ProcessError"
proof -
  let ?d = "cwd w @ [checkdir]"
  let ?ex' = "\<lambda>d exe args. if exe = ''./check'' \<and> args = [] then Returned [] else ex d exe args"
  have p: "probe_output ex ?d = []"
    using assms(3) by (simp add: probe_output_def)
  have p': "probe_output ?ex' d = []" for d
    by (simp add: probe_output_def)
  have c: "?ex' d exe (compile_args pkg) = ex d exe (compile_args pkg)" for d exe
    by (simp add: compile_args_def)
  have l: "?ex' d exe (link_args pkg) = ex d exe (link_args pkg)" for d exe
    by (simp add: link_args_def)
  have b: "check_body pkg ?ex' w' = check_body pkg ex w'" if "cwd w' = ?d" for w'
    using p that
    by (simp add: check_body_def Let_def c l p' write_file_simps cong: proc_outcome.case_cong)
  have eq: "priv_check_install pkg ex w = priv_check_install pkg ?ex' w"
    unfolding priv_check_install_unfold
    by (subst b) (simp_all add: entered_simps)
  have r: "fst (priv_check_install pkg ex w) = Inl (RuntimeError ''HDF5 install check failed'')"
    using assms(1,2)
    by (simp add: priv_check_install_fst check_body_result entered_simps p
        expected_output_nonempty [symmetric] split: proc_outcome.splits)
  show ?thesis using p eq r by simp
qed

theorem probe_failure_is_empty_output_witness:
  "probe_output probe_fails (cwd fresh_stage @ [checkdir]) = []
   \<and> priv_check_install hdf5_1_10_7 probe_fails fresh_stage =
       priv_check_install hdf5_1_10_7
         (\<lambda>d exe args. if exe = ''./check'' \<and> args = [] then Returned [] else probe_fails d exe args)
         fresh_stage
   \<and> fst (priv_check_install hdf5_1_10_7 probe_fails fresh_stage)
       = Inl (RuntimeError ''HDF5 install check failed'')
   \<and> fst (priv_check_install hdf5_1_10_7 probe_fails fresh_stage) \<noteq> Inl ProcessError"
proof -
  have a: "probe_fails d (compiler_exe hdf5_1_10_7) args \<noteq> Raised_ProcessError" for d args
    by (simp add: probe_fails_def compiler_exe_def hdf5_1_10_7_def gcc_def)
  have b: "probe_fails d ''./check'' [] = Raised_ProcessError" for d
    by (simp add: probe_fails_def)
  show ?thesis
    by (rule probe_failure_is_empty_output [where ex = probe_fails and w = fresh_stage
          and pkg = hdf5_1_10_7, OF a a b])
qed

text \<open>
  For a requested version with at least three components the expected string is
  \<open>HDF5 version V.v.p V.v.p\<close> followed by a line break; for version 1.10.7 it is
  \<open>HDF5 version 1.10.7 1.10.7\<close> with the line break, and a probe that prints exactly
  this passes the check.
\<close>

lemma expected_output_triplet:
  "expected_output (V # v # p # rest) = probe_printf V v p V v p
   \<and> expected_output [1, 10, 7] = ''HDF5 version 1.10.7 1.10.7\<newline>''
   \<and> fst (priv_check_install hdf5_1_10_7
            (probe_prints ''HDF5 version 1.10.7 1.10.7\<newline>'') fresh_stage) = Inr ()"
proof -
  have "expected_output [1, 10, 7] = ''HDF5 version 1.10.7 1.10.7\<newline>''"
    by (simp add: expected_output_def str_version_def up_to_def str_nat.simps digits_def)
  then show ?thesis
    using check_passes_1_10_7
    by (simp add: expected_output_def str_version_def up_to_def probe_printf_def)
qed

text \<open>
  The decimal digits of a number hold neither a dot nor a blank, so the expected string
  of a version with fewer than three components, which has at most one dot before its
  first blank, is never a line that the probe prints, which has two.
\<close>

lemma str_nat_digits: "set (str_nat n) \<subseteq> set digits"
proof (induction n rule: str_nat.induct)
  case (1 n)
  have len: "length digits = 10"
    by (simp add: digits_def)
  show ?case
  proof (cases "n < 10")
    case True
    then have "digits ! n \<in> set digits"
      using len by (intro nth_mem) simp
    with True show ?thesis
      by (subst str_nat.simps) simp
  next
    case False
    have "digits ! (n mod 10) \<in> set digits"
      using len by (intro nth_mem) simp
    with False "1.IH" show ?thesis
      by (subst str_nat.simps) simp
  qed
qed

lemma str_nat_plain:
  "CHR ''.'' \<notin> set (str_nat n)" "CHR '' '' \<notin> set (str_nat n)"
  using str_nat_digits [of n] by (auto simp: digits_def)

lemma str_nat_no_dots: "filter (\<lambda>c. c = CHR ''.'') (str_nat n) = []"
  using str_nat_plain(1) [of n] by (auto simp: filter_empty_conv)

lemma short_version_string:
  assumes "length v < 3"
  shows "CHR '' '' \<notin> set (str_version (up_to 3 v))
         \<and> length (filter (\<lambda>c. c = CHR ''.'') (str_version (up_to 3 v))) \<le> 1"
proof -
  from assms consider "v = []" | x where "v = [x]" | x y where "v = [x, y]"
    by (cases v; cases "tl v"; cases "tl (tl v)") auto
  then show ?thesis
    by cases (simp_all add: str_version_def up_to_def str_nat_plain str_nat_no_dots)
qed

lemma short_expected_differs:
  assumes "length v < 3"
  shows "expected_output v \<noteq> probe_printf a b c a' b' c'"
proof
  let ?S = "str_version (up_to 3 v)"
  let ?T = "str_nat a @ ''.'' @ str_nat b @ ''.'' @ str_nat c"
  let ?P = "\<lambda>ch. ch \<noteq> CHR '' ''"
  let ?R = "str_nat a' @ ''.'' @ str_nat b' @ ''.'' @ str_nat c' @ ''\<newline>''"
  assume "expected_output v = probe_printf a b c a' b' c'"
  then have eq: "?S @ CHR '' '' # (?S @ ''\<newline>'') = ?T @ CHR '' '' # ?R"
    by (simp add: expected_output_def probe_printf_def)
  have ps: "\<forall>x \<in> set ?S. ?P x"
    using short_version_string [OF assms] by blast
  have pt: "\<forall>x \<in> set ?T. ?P x"
    using str_nat_plain(2) by auto
  have s: "takeWhile ?P (?S @ CHR '' '' # (?S @ ''\<newline>'')) = ?S"
    using ps by (simp add: takeWhile_tail)
  have t: "takeWhile ?P (?T @ CHR '' '' # ?R) = ?T"
    using pt by (subst takeWhile_tail) simp_all
  have "takeWhile ?P (?S @ CHR '' '' # (?S @ ''\<newline>'')) = takeWhile ?P (?T @ CHR '' '' # ?R)"
    using eq by (rule arg_cong)
  then have "?S = ?T"
    unfolding s t .
  then have "length (filter (\<lambda>c. c = CHR ''.'') ?S) = length (filter (\<lambda>c. c = CHR ''.'') ?T)"
    by simp
  moreover have "length (filter (\<lambda>c. c = CHR ''.'') ?T) = 2"
    by (simp add: str_nat_no_dots)
  ultimately show False
    using short_version_string [OF assms] by simp
qed

text \<open>
  C4. The claim: the expected string has the form \<open>HDF5 version V.v.p V.v.p\<close> with a
  line break, a version triplet twice. The code breaks it for a requested version with
  fewer than three components, which every version the recipe declares is (1.13, 1.12,
  1.10, 1.8): \<^verbatim>\<open>up_to(3)\<close> keeps the two components there are. The expected string
  then differs from every line the probe can print, and whenever the probe compiles,
  links and prints its line, the install check raises \<open>RuntimeError\<close>.
\<close>

theorem short_version_check_fails:
  assumes "length (version pkg) < 3"
    and "ex (cwd w @ [checkdir]) (compiler_exe pkg) (compile_args pkg) \<noteq> Raised_ProcessError"
    and "ex (cwd w @ [checkdir]) (compiler_exe pkg) (link_args pkg) \<noteq> Raised_ProcessError"
    and "probe_output ex (cwd w @ [checkdir]) = probe_printf a b c a' b' c'"
  shows "expected_output (version pkg) \<noteq> probe_printf a b c a' b' c'
         \<and> fst (priv_check_install pkg ex w) = Inl (RuntimeError ''HDF5 install check failed'')"
proof -
  have d: "expected_output (version pkg) \<noteq> probe_printf a b c a' b' c'"
    using assms(1) by (rule short_expected_differs)
  then have "probe_output ex (cwd w @ [checkdir]) \<noteq> expected_output (version pkg)"
    using assms(4) by simp
  then have "fst (priv_check_install pkg ex w) = Inl (RuntimeError ''HDF5 install check failed'')"
    using assms(2,3)
    by (simp add: priv_check_install_fst check_body_result entered_simps
        split: proc_outcome.splits)
  with d show ?thesis by simp
qed

theorem short_version_check_fails_witness:
  "expected_output (version hdf5_1_10) = ''HDF5 version 1.10 1.10\<newline>''
   \<and> expected_output (version hdf5_1_10) \<noteq> ''HDF5 version 1.10.7 1.10.7\<newline>''
   \<and> fst (priv_check_install hdf5_1_10
            (probe_prints ''HDF5 version 1.10.7 1.10.7\<newline>'') fresh_stage)
       = Inl (RuntimeError ''HDF5 install check failed'')"
proof -
  let ?ex = "probe_prints ''HDF5 version 1.10.7 1.10.7\<newline>''"
  have l: "length (version hdf5_1_10) < 3"
    by (simp add: hdf5_1_10_def hdf5_1_10_7_def)
  have c: "?ex d exe args \<noteq> Raised_ProcessError" for d exe args
    by (simp add: probe_prints_def)
  have f: "probe_printf 1 10 7 1 10 7 = ''HDF5 version 1.10.7 1.10.7\<newline>''"
    by (simp add: probe_printf_def str_nat.simps digits_def)
  have p: "probe_output ?ex (cwd fresh_stage @ [checkdir]) = probe_printf 1 10 7 1 10 7"
    unfolding f by (simp add: probe_output_def probe_prints_def)
  have e: "expected_output (version hdf5_1_10) = ''HDF5 version 1.10 1.10\<newline>''"
    by (simp add: hdf5_1_10_def hdf5_1_10_7_def expected_output_def str_version_def up_to_def
        str_nat.simps digits_def)
  show ?thesis
    using short_version_check_fails [OF l c c p] e
    by (simp add: f)
qed

subsection \<open>The flag handler\<close>

lemmas store_defs = flag_handler_st_def flag_handler_def new_list_def list_append_def
      list_extend_def ref_or_none_def or_none_def Let_def

lemma flag_handler_st_effect:
  "flag_handler_st pkg name flags h =
     ((flags, None, map_option (\<lambda>xs. next_ref h) (snd (snd (flag_handler pkg name [])))),
      h\<lparr>cells := (cells h)(next_ref h \<mapsto>
                    (case snd (snd (flag_handler pkg name [])) of None \<Rightarrow> [] | Some xs \<Rightarrow> xs)),
        next_ref := Suc (next_ref h)\<rparr>)"
proof -
  consider (c) "name = ''cflags''" | (cxx) "name = ''cxxflags''" | (f) "name = ''fflags''"
    | (l) "name = ''ldlibs''"
    | (other) "name \<noteq> ''cflags''" "name \<noteq> ''cxxflags''" "name \<noteq> ''fflags''" "name \<noteq> ''ldlibs''"
    by blast
  then show ?thesis
  proof cases
    case c
    then show ?thesis by (simp add: store_defs)
  next
    case cxx
    then show ?thesis by (simp add: store_defs)
  next
    case f
    then show ?thesis by (simp add: store_defs)
  next
    case l
    then show ?thesis by (simp add: store_defs)
  next
    case other
    then show ?thesis by (simp add: store_defs)
  qed
qed

lemma flag_handler_flags_irrelevant:
  "snd (flag_handler pkg name flags) = snd (flag_handler pkg name [])"
  "fst (flag_handler pkg name flags) = flags"
  by (simp_all add: flag_handler_def Let_def split del: if_split)

text \<open>
  C5. For a build context with the \<open>shared\<close> variant disabled and a version at or below
  1.8.12, \<open>flag_handler\<close> adds exactly one position-independent-code flag for each
  enabled language to the flags for the build system: the C flag for \<open>cflags\<close> (after
  the warning flag of the gcc and clang families, when that applies), the C++ flag for
  \<open>cxxflags\<close> exactly when the \<open>cxx\<close> variant is enabled, and the Fortran flag for
  \<open>fflags\<close> exactly when the \<open>fortran\<close> variant is enabled (after \<open>-ef\<close> for the
  Cray compiler). The input flags are returned as they are.
\<close>

theorem static_build_pic_flags:
  assumes "\<not> shared pkg" and "in_range_upto [1, 8, 12] (version pkg)"
  shows "flag_handler pkg ''cflags'' flags =
           (flags, None,
            Some ((if compiler_name (compiler pkg) \<in> set [''gcc'', ''clang'', ''apple-clang'']
                   then [''-Wno-implicit-function-declaration''] else [])
                  @ [cc_pic_flag (compiler pkg)]))
         \<and> flag_handler pkg ''cxxflags'' flags =
           (flags, None, if cxx pkg then Some [cxx_pic_flag (compiler pkg)] else None)
         \<and> flag_handler pkg ''fflags'' flags =
           (flags, None,
            if fortran pkg
            then Some ((if compiler_name (compiler pkg) = ''cce'' then [''-ef''] else [])
                       @ [fc_pic_flag (compiler pkg)])
            else None)"
  using assms by (simp add: flag_handler_def or_none_def)

theorem static_build_pic_flags_witness:
  "flag_handler hdf5_1_8_12_static ''cflags'' [''-O2''] =
     ([''-O2''], None, Some [''-Wno-implicit-function-declaration'', ''-fPIC''])
   \<and> flag_handler hdf5_1_8_12_static ''cxxflags'' [] = ([], None, Some [''-fPIC''])
   \<and> flag_handler hdf5_1_8_12_static ''fflags'' [] = ([], None, Some [''-fPIC''])"
proof -
  have a: "\<not> shared hdf5_1_8_12_static"
    by (simp add: hdf5_1_8_12_static_def)
  have b: "in_range_upto [1, 8, 12] (version hdf5_1_8_12_static)"
    by (simp add: hdf5_1_8_12_static_def in_range_upto_def)
  show ?thesis
    using static_build_pic_flags [OF a b, of "[''-O2'']"] static_build_pic_flags [OF a b, of "[]"]
    by (simp add: hdf5_1_8_12_static_def gcc_def)
qed

text \<open>
  C6. For a build context with the \<open>shared\<close> variant enabled, \<open>flag_handler\<close> adds no
  position-independent-code flag in any flag category: the flags for the build system
  are made of the fixed flags of the other rules only, and the whole result stays the
  same whatever the version and the three position-independent-code flags of the
  compiler are.
\<close>

theorem shared_build_no_pic_flags:
  assumes "shared pkg"
  shows "flag_handler pkg name flags =
           (flags, None,
            or_none
              (if name = ''cflags'' then
                 (if compiler_name (compiler pkg) \<in> set [''gcc'', ''clang'', ''apple-clang'']
                  then [''-Wno-implicit-function-declaration''] else [])
               else if name = ''fflags'' then
                 (if compiler_name (compiler pkg) = ''cce'' \<and> fortran pkg then [''-ef''] else [])
               else if name = ''ldlibs'' then
                 (if fortran pkg \<and> compiler_name (compiler pkg) = ''fj''
                  then [''-lfj90i'', ''-lfj90f'', ''-lfjsrcinfo'', ''-lelf''] else [])
               else []))
         \<and> flag_handler pkg name flags =
           flag_handler
             (pkg\<lparr>version := v,
                  compiler := (compiler pkg)\<lparr>cc_pic_flag := a, cxx_pic_flag := b,
                                            fc_pic_flag := c\<rparr>\<rparr>) name flags"
  using assms by (simp add: flag_handler_def)

theorem shared_build_no_pic_flags_witness:
  "flag_handler (hdf5_1_8_12_static\<lparr>shared := True\<rparr>) ''cflags'' [] =
     ([], None, Some [''-Wno-implicit-function-declaration''])
   \<and> flag_handler (hdf5_1_8_12_static\<lparr>shared := True\<rparr>) ''cxxflags'' [] = ([], None, None)
   \<and> flag_handler (hdf5_1_8_12_static\<lparr>shared := True\<rparr>) ''fflags'' [] = ([], None, None)"
proof -
  have a: "shared (hdf5_1_8_12_static\<lparr>shared := True\<rparr>)"
    by simp
  show ?thesis
    using shared_build_no_pic_flags [OF a, of "''cflags''" "[]"]
      shared_build_no_pic_flags [OF a, of "''cxxflags''" "[]"]
      shared_build_no_pic_flags [OF a, of "''fflags''" "[]"]
    by (simp add: hdf5_1_8_12_static_def gcc_def or_none_def)
qed

text \<open>
  C7. \<open>flag_handler\<close> is a pure function of the category name, the input flag list and
  the build context. On the store: a call returns the very list it was given and leaves
  its contents, and every other list that existed before the call, unchanged; the flags
  for the build system are a fresh list whose contents are those of the functional
  embedding, which depend on nothing but the name and the build context; and a second
  call with the same arguments, made in the store the first call left, returns lists with
  the same contents in the same order.
\<close>

theorem flag_handler_pure:
  assumes "cells h flags = Some fl" and "flags < next_ref h"
  shows "fst (fst (flag_handler_st pkg name flags h)) = flags
    \<and> cells (snd (flag_handler_st pkg name flags h)) flags = Some fl
    \<and> (\<forall>r. r < next_ref h \<longrightarrow> cells (snd (flag_handler_st pkg name flags h)) r = cells h r)
    \<and> deref (snd (flag_handler_st pkg name flags h))
         (snd (snd (fst (flag_handler_st pkg name flags h))))
       = snd (snd (flag_handler pkg name fl))
    \<and> fst (snd (fst (flag_handler_st pkg name flags h))) = None
    \<and> fst (fst (flag_handler_st pkg name flags (snd (flag_handler_st pkg name flags h)))) = flags
    \<and> cells (snd (flag_handler_st pkg name flags (snd (flag_handler_st pkg name flags h)))) flags
       = Some fl
    \<and> deref (snd (flag_handler_st pkg name flags (snd (flag_handler_st pkg name flags h))))
         (snd (snd (fst (flag_handler_st pkg name flags (snd (flag_handler_st pkg name flags h))))))
       = deref (snd (flag_handler_st pkg name flags h))
           (snd (snd (fst (flag_handler_st pkg name flags h))))"
proof -
  have t: "deref h' (map_option (\<lambda>xs. n) x) = x"
    if "cells h' n = Some (case x of None \<Rightarrow> [] | Some xs \<Rightarrow> xs)"
    for h' :: heap and n x
    using that by (cases x) (simp_all add: deref_def)
  have s: "snd (snd (flag_handler pkg name fl)) = snd (snd (flag_handler pkg name []))"
    by (rule arg_cong [OF flag_handler_flags_irrelevant(1)])
  show ?thesis
    using assms by (simp add: flag_handler_st_effect t s)
qed

theorem flag_handler_pure_witness:
  "fst (fst (flag_handler_st hdf5_1_8_12_static ''cflags'' 0 heap0)) = 0
   \<and> cells (snd (flag_handler_st hdf5_1_8_12_static ''cflags'' 0 heap0)) 0 = Some [''-O2'']
   \<and> deref (snd (flag_handler_st hdf5_1_8_12_static ''cflags'' 0 heap0))
         (snd (snd (fst (flag_handler_st hdf5_1_8_12_static ''cflags'' 0 heap0))))
       = Some [''-Wno-implicit-function-declaration'', ''-fPIC'']
   \<and> cells (snd (flag_handler_st hdf5_1_8_12_static ''cflags'' 0
               (snd (flag_handler_st hdf5_1_8_12_static ''cflags'' 0 heap0)))) 0 = Some [''-O2'']
   \<and> deref (snd (flag_handler_st hdf5_1_8_12_static ''cflags'' 0
               (snd (flag_handler_st hdf5_1_8_12_static ''cflags'' 0 heap0))))
         (snd (snd (fst (flag_handler_st hdf5_1_8_12_static ''cflags'' 0
               (snd (flag_handler_st hdf5_1_8_12_static ''cflags'' 0 heap0))))))
       = Some [''-Wno-implicit-function-declaration'', ''-fPIC'']"
proof -
  have a: "cells heap0 0 = Some [''-O2'']"
    by (simp add: heap0_def)
  have b: "0 < next_ref heap0"
    by (simp add: heap0_def)
  have c: "snd (snd (flag_handler hdf5_1_8_12_static ''cflags'' [''-O2'']))
             = Some [''-Wno-implicit-function-declaration'', ''-fPIC'']"
    by (simp add: flag_handler_def hdf5_1_8_12_static_def gcc_def in_range_upto_def or_none_def)
  show ?thesis
    using flag_handler_pure [OF a b, of hdf5_1_8_12_static "''cflags''"]
    by (simp add: c)
qed

subsection \<open>The Fortran check\<close>

text \<open>
  C8. When the \<open>fortran\<close> variant is enabled and the compiler has no Fortran front end
  (\<open>fc\<close> is \<open>None\<close> or empty), \<open>fortran_check\<close> raises \<open>RuntimeError\<close> "cannot build
  a Fortran variant without a Fortran compiler", and the cmake phase does not run. In
  every other case the check raises nothing and the phase runs.
\<close>

theorem fortran_check_raises:
  "(fortran pkg \<and> (fc (compiler pkg) = None \<or> fc (compiler pkg) = Some []) \<longrightarrow>
      fortran_check pkg
        = Inl (RuntimeError ''cannot build a Fortran variant without a Fortran compiler'')
      \<and> run_phase_cmake pkg cmake
        = Inl (RuntimeError ''cannot build a Fortran variant without a Fortran compiler''))
   \<and> (\<not> (fortran pkg \<and> (fc (compiler pkg) = None \<or> fc (compiler pkg) = Some [])) \<longrightarrow>
      fortran_check pkg = Inr () \<and> run_phase_cmake pkg cmake = Inr (cmake pkg))"
  by (auto simp: fortran_check_def run_phase_cmake_def truthy_def split: option.splits)

theorem fortran_check_raises_witness:
  "fortran_check (hdf5_1_8_12_static\<lparr>compiler := gcc\<lparr>fc := None\<rparr>\<rparr>)
     = Inl (RuntimeError ''cannot build a Fortran variant without a Fortran compiler'')
   \<and> run_phase_cmake (hdf5_1_8_12_static\<lparr>compiler := gcc\<lparr>fc := None\<rparr>\<rparr>) (\<lambda>p. ''configured'')
     = Inl (RuntimeError ''cannot build a Fortran variant without a Fortran compiler'')
   \<and> fortran_check hdf5_1_8_12_static = Inr ()
   \<and> run_phase_cmake hdf5_1_8_12_static (\<lambda>p. ''configured'') = Inr ''configured''
   \<and> fortran_check (hdf5_1_10_7\<lparr>compiler := gcc\<lparr>fc := None\<rparr>\<rparr>) = Inr ()"
  using fortran_check_raises [of "hdf5_1_8_12_static\<lparr>compiler := gcc\<lparr>fc := None\<rparr>\<rparr>"
          "\<lambda>p. ''configured''"]
    fortran_check_raises [of hdf5_1_8_12_static "\<lambda>p. ''configured''"]
    fortran_check_raises [of "hdf5_1_10_7\<lparr>compiler := gcc\<lparr>fc := None\<rparr>\<rparr>"
          "\<lambda>p. ''configured''"]
  by (simp add: hdf5_1_8_12_static_def hdf5_1_10_7_def gcc_def)

subsection \<open>The smoke tests\<close>

lemma run_test_append:
  "run_test env exe options expected purpose skip log =
     log @ run_test env exe options expected purpose skip []"
  by (simp add: run_test_def)

lemma check_versions_loop_append:
  "check_versions_loop env vs xs log = log @ check_versions_loop env vs xs []"
proof (induction xs arbitrary: log)
  case Nil
  then show ?case by simp
next
  case (Cons x xs)
  let ?run = "run_test env x [if x \<in> set use_short_opt then ''-V'' else ''--version''] [vs]
                (''test: ensuring version of '' @ x @ '' is '' @ vs) True"
  have "check_versions_loop env vs (x # xs) log = check_versions_loop env vs xs (?run log)"
    unfolding check_versions_loop.simps Let_def by (rule refl)
  also have "\<dots> = ?run log @ check_versions_loop env vs xs []"
    by (rule Cons.IH)
  also have "?run log = log @ ?run []"
    by (rule run_test_append)
  also have "(log @ ?run []) @ check_versions_loop env vs xs []
               = log @ (?run [] @ check_versions_loop env vs xs [])"
    by (rule append_assoc)
  also have "?run [] @ check_versions_loop env vs xs [] = check_versions_loop env vs xs (?run [])"
    by (rule Cons.IH [symmetric])
  also have "check_versions_loop env vs xs (?run []) = check_versions_loop env vs (x # xs) []"
    unfolding check_versions_loop.simps Let_def by (rule refl)
  finally show ?case .
qed

lemma check_versions_loop_Cons:
  "check_versions_loop env vs (x # xs) [] =
     run_test env x [if x \<in> set use_short_opt then ''-V'' else ''--version''] [vs]
       (''test: ensuring version of '' @ x @ '' is '' @ vs) True []
     @ check_versions_loop env vs xs []"
  unfolding check_versions_loop.simps Let_def by (rule check_versions_loop_append)

lemma check_versions_loop_exes:
  "map run_exe (check_versions_loop env vs xs []) = xs"
proof (induction xs)
  case Nil
  then show ?case by simp
next
  case (Cons x xs)
  show ?case using Cons.IH
    by (simp add: check_versions_loop_Cons run_test_def del: check_versions_loop.simps)
qed

lemma run_test_skips:
  "c \<in> set (run_test env exe options expected purpose True []) \<Longrightarrow>
     \<not> which env (run_exe c) \<Longrightarrow> run_outcome c = Skipped"
  by (auto simp: run_test_def)

lemma check_versions_loop_skips:
  "c \<in> set (check_versions_loop env vs xs []) \<Longrightarrow> \<not> which env (run_exe c) \<Longrightarrow>
     run_outcome c = Skipped"
proof (induction xs)
  case Nil
  then show ?case by simp
next
  case (Cons x xs)
  from Cons.prems(1) consider
    "c \<in> set (run_test env x [if x \<in> set use_short_opt then ''-V'' else ''--version''] [vs]
            (''test: ensuring version of '' @ x @ '' is '' @ vs) True [])"
    | "c \<in> set (check_versions_loop env vs xs [])"
    by (auto simp: check_versions_loop_Cons simp del: check_versions_loop.simps)
  then show ?case
  proof cases
    case 1
    then show ?thesis using Cons.prems(2) by (rule run_test_skips)
  next
    case 2
    then show ?thesis using Cons.prems(2) by (rule Cons.IH)
  qed
qed

lemma priv_test_example_unfold:
  "priv_test_example env log = log @ priv_test_example env []"
  by (simp add: priv_test_example_def Let_def run_test_def)

lemma test_log:
  "fst (snd (test pkg env ex (log, w))) =
     log @ check_versions_loop env (''Version '' @ str_version (version pkg)) exes []
         @ priv_test_example env []"
proof -
  let ?vs = "''Version '' @ str_version (version pkg)"
  have "fst (snd (test pkg env ex (log, w))) =
          priv_test_example env (check_versions_loop env ?vs exes log)"
    by (simp add: test_def Let_def split_def priv_test_check_versions_def)
  also have "\<dots> = check_versions_loop env ?vs exes log @ priv_test_example env []"
    by (rule priv_test_example_unfold)
  also have "check_versions_loop env ?vs exes log = log @ check_versions_loop env ?vs exes []"
    by (rule check_versions_loop_append)
  finally show ?thesis by simp
qed

text \<open>
  C9. Every check that \<open>test\<close> sequences through \<open>run_test\<close> is made, whatever the
  outcomes of the checks before it: the nine version checks and the three checks of the
  example file, in this order, added to the checks recorded earlier. A check whose
  executable is not installed is recorded as skipped and raises nothing. The install
  check that ends \<open>test\<close> is then run in every case.
\<close>

theorem smoke_tests_all_run:
  "fst (snd (test pkg env ex (log, w))) = log @ fst (snd (test pkg env ex ([], w)))
   \<and> map run_exe (fst (snd (test pkg env ex ([], w))))
       = exes @ [''h5dump'', ''h5copy'', ''h5diff'']
   \<and> (\<forall>c \<in> set (fst (snd (test pkg env ex ([], w)))).
         \<not> which env (run_exe c) \<longrightarrow> run_outcome c = Skipped)
   \<and> (fst (test pkg env ex (log, w)), snd (snd (test pkg env ex (log, w))))
       = priv_check_install pkg ex w"
proof -
  have a: "fst (snd (test pkg env ex (log, w))) = log @ fst (snd (test pkg env ex ([], w)))"
    by (simp add: test_log)
  have b: "map run_exe (fst (snd (test pkg env ex ([], w))))
       = exes @ [''h5dump'', ''h5copy'', ''h5diff'']"
    by (simp add: test_log check_versions_loop_exes)
       (simp add: priv_test_example_def Let_def run_test_def)
  have c: "run_outcome c = Skipped"
    if "c \<in> set (fst (snd (test pkg env ex ([], w))))" "\<not> which env (run_exe c)" for c
  proof -
    from that(1) consider
      "c \<in> set (check_versions_loop env (''Version '' @ str_version (version pkg)) exes [])"
      | "c \<in> set (priv_test_example env [])"
      by (auto simp: test_log)
    then show ?thesis
    proof cases
      case 1
      then show ?thesis using that(2) by (rule check_versions_loop_skips)
    next
      case 2
      then show ?thesis using that(2)
        by (auto simp: priv_test_example_def Let_def run_test_def)
    qed
  qed
  have d: "(fst (test pkg env ex (log, w)), snd (snd (test pkg env ex (log, w))))
       = priv_check_install pkg ex w"
    by (simp add: test_def Let_def split_def)
  show ?thesis using a b c d by blast
qed

theorem smoke_tests_all_run_witness:
  "map run_exe (fst (snd (test hdf5_1_10_7 partial_install all_fail ([], fresh_stage)))) =
     [''h5copy'', ''h5diff'', ''h5dump'', ''h5format_convert'', ''h5ls'', ''h5mkgrp'',
      ''h5repack'', ''h5stat'', ''h5unjam'', ''h5dump'', ''h5copy'', ''h5diff'']
   \<and> map run_outcome (fst (snd (test hdf5_1_10_7 partial_install all_fail ([], fresh_stage)))) =
     [Skipped, Skipped, Failed, Skipped, Failed, Skipped,
      Skipped, Skipped, Skipped, Failed, Skipped, Skipped]
   \<and> fst (test hdf5_1_10_7 partial_install all_fail ([], fresh_stage)) = Inl ProcessError"
  using smoke_tests_all_run [of hdf5_1_10_7 partial_install all_fail "[]" fresh_stage]
  by (simp add: test_def priv_test_check_versions_def priv_test_example_def exes_def
      use_short_opt_def run_test_def partial_install_def split_def run_defs hdf5_1_10_7_def
      all_fail_def fresh_stage_def gcc_def)

subsection \<open>NCO\<close>

text \<open>
  C10. \<open>Nco.configure_args\<close> returns a list of exactly one argument for every spec:
  \<open>--enable-doc\<close> when the doc variant is enabled and \<open>--disable-doc\<close> when it is
  disabled.
\<close>

theorem configure_args_single:
  "configure_args spec = [if doc spec then ''--enable-doc'' else ''--disable-doc'']
   \<and> length (configure_args spec) = 1"
  by (simp add: configure_args_def format_doc_def)

theorem configure_args_single_witness:
  "configure_args \<lparr>doc = True\<rparr> = [''--enable-doc'']
   \<and> configure_args \<lparr>doc = False\<rparr> = [''--disable-doc'']"
  using configure_args_single [of "\<lparr>doc = True\<rparr>"] configure_args_single [of "\<lparr>doc = False\<rparr>"]
  by simp

end
